theory Spec2Isabelle
  imports Main "HOL-Library.Multiset"
begin

section \<open>Data model\<close>

text \<open>
  The status strings the worker and the handlers write into a preview record:
  \<^verbatim>\<open>'building'\<close>, \<^verbatim>\<open>'generating'\<close>, \<^verbatim>\<open>'deploying'\<close>, \<^verbatim>\<open>'live'\<close>, \<^verbatim>\<open>'failed'\<close>.
\<close>

datatype status = Building | Generating | Deploying | Live | Failed

text \<open>
  A value thrown by a JavaScript callee: an \<^verbatim>\<open>Error\<close> object with its message, or any
  other value (with its string rendering).
\<close>

datatype thrown = Err string | Other string

text \<open>\<^verbatim>\<open>error instanceof Error ? error.message : 'Unknown error'\<close>\<close>

fun message_of :: "thrown \<Rightarrow> string" where
  "message_of (Err m) = m"
| "message_of (Other v) = ''Unknown error''"

text \<open>The rendering of a caught value inside a template literal.\<close>

fun render :: "thrown \<Rightarrow> string" where
  "render (Err m) = ''Error: '' @ m"
| "render (Other v) = v"

text \<open>
  A string-valued field that may be absent (\<^verbatim>\<open>undefined\<close> or \<^verbatim>\<open>null\<close>) is a
  \<open>string option\<close>. JavaScript truthiness of such a value: absent and the empty
  string are falsy.
\<close>

fun falsy :: "string option \<Rightarrow> bool" where
  "falsy None = True"
| "falsy (Some s) = (s = [])"

text \<open>\<^verbatim>\<open>x || d\<close> on a possibly absent string.\<close>

fun str_or :: "string option \<Rightarrow> string \<Rightarrow> string" where
  "str_or None d = d"
| "str_or (Some s) d = (if s = [] then d else s)"

text \<open>The row of \<^verbatim>\<open>db.previews\<close>, with the fields the handlers insert.\<close>

record preview =
  pid :: string
  prompt :: "string option"
  userId :: "string option"
  status :: status
  liveUrl :: "string option"
  error :: "string option"
  createdAt :: nat
  updatedAt :: nat

text \<open>\<^verbatim>\<open>interface PreviewJobData { jobId; prompt; userId }\<close>\<close>

record PreviewJobData =
  jobId :: string
  job_prompt :: "string option"
  job_userId :: "string option"

text \<open>
  The object passed to \<^verbatim>\<open>db.previews.update\<close>: every call of the source sets
  \<^verbatim>\<open>status\<close> and \<^verbatim>\<open>updatedAt\<close>; \<^verbatim>\<open>liveUrl\<close> and \<^verbatim>\<open>error\<close> are set by some
  calls only (\<open>None\<close>: the key is not in the object and the field stays as it is).
\<close>

record changes =
  new_status :: status
  new_liveUrl :: "string option"
  new_error :: "string option"
  new_updatedAt :: nat

definition apply_changes :: "changes \<Rightarrow> preview \<Rightarrow> preview" where
  "apply_changes c p =
     p\<lparr> status := new_status c,
        liveUrl := (case new_liveUrl c of None \<Rightarrow> liveUrl p | Some u \<Rightarrow> Some u),
        error := (case new_error c of None \<Rightarrow> error p | Some m \<Rightarrow> Some m),
        updatedAt := new_updatedAt c \<rparr>"

section \<open>PreviewStore\<close>

type_synonym store = "preview list"

text \<open>
  Modelled from the spec: the module \<^verbatim>\<open>../db\<close> (the table \<^verbatim>\<open>db.previews\<close>) is
  imported by the sources and is not among them. The spec gives the store insert,
  point update by id, point read by id and list-by-owner ordered by creation time
  descending, with the id as primary key. The table is the list of its rows in
  insertion order. Each call takes the fault of the backing store at that call, if
  any (\<open>Some e\<close>: the call rejects with \<open>e\<close>).
\<close>

definition db_get :: "thrown option \<Rightarrow> string \<Rightarrow> store \<Rightarrow> thrown + preview option" where
  "db_get fault key s =
     (case fault of
        Some e \<Rightarrow> Inl e
      | None \<Rightarrow> Inr (find (\<lambda>p. pid p = key) s))"

text \<open>
  Modelled from the spec: insert. A row whose primary key is already in the table
  is refused.
\<close>

definition db_add :: "thrown option \<Rightarrow> preview \<Rightarrow> store \<Rightarrow> thrown + store" where
  "db_add fault row s =
     (case fault of
        Some e \<Rightarrow> Inl e
      | None \<Rightarrow>
          if pid row \<in> set (map pid s) then Inl (Err ''Key already exists in the object store'')
          else Inr (s @ [row]))"

text \<open>
  Modelled from the spec: point update by id. The row with the key takes the
  changes; a key with no row changes nothing and the call still fulfils.
\<close>

definition set_row :: "string \<Rightarrow> changes \<Rightarrow> store \<Rightarrow> store" where
  "set_row key c s = map (\<lambda>p. if pid p = key then apply_changes c p else p) s"

text \<open>
  Modelled from the spec: \<^verbatim>\<open>db.previews.update(key, changes)\<close>, the point update
  with the fault of the call.
\<close>

definition db_update :: "thrown option \<Rightarrow> string \<Rightarrow> changes \<Rightarrow> store \<Rightarrow> thrown + store" where
  "db_update fault key c s =
     (case fault of
        Some e \<Rightarrow> Inl e
      | None \<Rightarrow> Inr (set_row key c s))"

section \<open>The worker: generator.ts\<close>

text \<open>
  What a run of the worker meets outside itself:
  \<^item> \<open>faults k\<close>: the fault of the \<open>k\<close>-th store or queue call of the run or handler;
  \<^item> \<open>clock k\<close>: the value of the \<open>k\<close>-th \<^verbatim>\<open>new Date()\<close>;
  \<^item> \<open>stamp\<close>, \<open>rnd\<close>: the renderings of \<^verbatim>\<open>Date.now()\<close> and of
    \<^verbatim>\<open>Math.random().toString(36).substr(2, 9)\<close>;
  \<^item> \<open>fs_copy k\<close>: the failure of the \<open>k\<close>-th \<^verbatim>\<open>fs.copy\<close>, if any;
  \<^item> \<open>deploy\<close>: the result of \<^verbatim>\<open>deployToNetlify(appPath)\<close> of the worker's own
    \<^verbatim>\<open>./netlify\<close> module, which is not among the sources: a thrown value, or the
    returned URL (\<open>None\<close>: no URL);
  \<^item> \<open>during_generate\<close>, \<open>during_deploy\<close>: what the request handlers and the other
    workers do to the store while this run is suspended in the two capability calls.
\<close>

record world =
  faults :: "nat \<Rightarrow> thrown option"
  clock :: "nat \<Rightarrow> nat"
  stamp :: string
  rnd :: string
  fs_copy :: "nat \<Rightarrow> thrown option"
  deploy :: "string \<Rightarrow> thrown + string option"
  during_generate :: "store \<Rightarrow> store"
  during_deploy :: "store \<Rightarrow> store"

text \<open>What a run does, in order.\<close>

datatype event =
    DbUpdate string status
  | Generate "string option"
  | Deploy string
  | FsRemove string

definition maxAttempts :: nat where
  "maxAttempts = 3"

text \<open>
  The copy loop of \<^verbatim>\<open>generateAppCode\<close>:
  \<^verbatim>\<open>while (attempts < maxAttempts) { try { copy; break } catch { attempts++; ... } }\<close>.
  The loop is left by \<^verbatim>\<open>break\<close> after a copy that worked, and by \<^verbatim>\<open>throw\<close> when
  the third copy has failed.
\<close>

function copy_loop :: "world \<Rightarrow> nat \<Rightarrow> thrown + unit" where
  "copy_loop w attempts =
     (if attempts < maxAttempts then
        (case fs_copy w attempts of
           None \<Rightarrow> Inr ()
         | Some copyError \<Rightarrow>
             if Suc attempts = maxAttempts
             then Inl (Err (''Failed to copy template after 3 attempts: '' @ render copyError))
             else copy_loop w (Suc attempts))
      else Inr ())"
  by pat_completeness auto
termination
  by (relation "measure (\<lambda>(w, attempts). maxAttempts - attempts)") auto

declare copy_loop.simps [simp del]

text \<open>\<^verbatim>\<open>path.join('/tmp', `preview_${Date.now()}_${Math.random()...}`)\<close>\<close>

definition outputPath :: "world \<Rightarrow> string" where
  "outputPath w = ''/tmp/preview_'' @ stamp w @ ''_'' @ rnd w"

definition generateAppCode :: "world \<Rightarrow> thrown + string" where
  "generateAppCode w =
     (case copy_loop w 0 of
        Inl e \<Rightarrow> Inl e
      | Inr _ \<Rightarrow> Inr (outputPath w))"

definition status_change :: "status \<Rightarrow> nat \<Rightarrow> changes" where
  "status_change st t =
     \<lparr> new_status = st, new_liveUrl = None, new_error = None, new_updatedAt = t \<rparr>"

text \<open>
  The \<^verbatim>\<open>catch\<close> block of \<^verbatim>\<open>processPreviewJob\<close>: remove the artifact when there
  is one, write \<^verbatim>\<open>failed\<close> with the message, throw the caught value again. When the
  write itself rejects, its error leaves the function instead.
\<close>

definition on_error ::
    "world \<Rightarrow> PreviewJobData \<Rightarrow> string \<Rightarrow> thrown \<Rightarrow> store \<Rightarrow> event list
      \<Rightarrow> (thrown + unit) \<times> store \<times> event list" where
  "on_error w d appPath e s tr =
     (let tr' = (if appPath \<noteq> [] then tr @ [FsRemove appPath] else tr) in
      case db_update (faults w 3) (jobId d)
             \<lparr> new_status = Failed, new_liveUrl = None,
               new_error = Some (message_of e), new_updatedAt = clock w 3 \<rparr> s of
        Inl e' \<Rightarrow> (Inl e', s, tr')
      | Inr s' \<Rightarrow> (Inl e, s', tr' @ [DbUpdate (jobId d) Failed]))"

text \<open>
  \<^verbatim>\<open>processPreviewJob(data)\<close>: the result (\<open>Inl\<close>: the promise rejects), the store
  after the run and the events of the run. \<^verbatim>\<open>appPath\<close> is \<^verbatim>\<open>''\<close> until
  \<^verbatim>\<open>generateAppCode\<close> has returned.
\<close>

definition processPreviewJob ::
    "world \<Rightarrow> PreviewJobData \<Rightarrow> store \<Rightarrow> (thrown + unit) \<times> store \<times> event list" where
  "processPreviewJob w d s0 =
     (case db_update (faults w 0) (jobId d) (status_change Building (clock w 0)) s0 of
        Inl e \<Rightarrow> on_error w d [] e s0 []
      | Inr s1 \<Rightarrow>
          let tr1 = [DbUpdate (jobId d) Building, Generate (job_prompt d)];
              s1' = during_generate w s1
          in
          (case generateAppCode w of
             Inl e \<Rightarrow> on_error w d [] e s1' tr1
           | Inr appPath \<Rightarrow>
               (case db_update (faults w 1) (jobId d)
                       (status_change Generating (clock w 1)) s1' of
                  Inl e \<Rightarrow> on_error w d appPath e s1' tr1
                | Inr s2 \<Rightarrow>
                    let tr2 = tr1 @ [DbUpdate (jobId d) Generating, Deploy appPath];
                        s2' = during_deploy w s2
                    in
                    (case deploy w appPath of
                       Inl e \<Rightarrow> on_error w d appPath e s2' tr2
                     | Inr url \<Rightarrow>
                         if falsy url
                         then on_error w d appPath
                                (Err ''Failed to get deployment URL from Netlify'') s2' tr2
                         else
                           (case db_update (faults w 2) (jobId d)
                                   \<lparr> new_status = Live, new_liveUrl = url,
                                     new_error = None, new_updatedAt = clock w 2 \<rparr> s2' of
                              Inl e \<Rightarrow> on_error w d appPath e s2' tr2
                            | Inr s3 \<Rightarrow>
                                (Inr (), s3,
                                 tr2 @ [DbUpdate (jobId d) Live, FsRemove appPath]))))))"

section \<open>The queue: queue.ts\<close>

datatype backoff_type = Fixed | Exponential

record job_options =
  removeOnComplete :: bool
  removeOnFail :: bool
  attempts :: nat
  backoff :: backoff_type
  delay :: nat

text \<open>\<^verbatim>\<open>redisConfig.defaultJobOptions\<close>\<close>

definition defaultJobOptions :: job_options where
  "defaultJobOptions =
     \<lparr> removeOnComplete = True, removeOnFail = False, attempts = 3,
       backoff = Exponential, delay = 2000 \<rparr>"

datatype job_state = Waiting | Active | Delayed | Completed | FailedJob

record queue_entry =
  entry_id :: string
  entry_data :: PreviewJobData
  entry_state :: job_state

type_synonym queue = "queue_entry list"

text \<open>
  Modelled from the spec: the queue is the Bull library's, which is not among the
  sources. The spec keys the entries by job id, makes \<open>enqueue\<close> with an id that is
  present a no-operation, lets \<open>cancel\<close> remove the entry, and gives the counts of
  the waiting and the active entries. \<^verbatim>\<open>previewQueue.getJob(jobId)\<close> is the entry
  with the id, if the queue has one.
\<close>

definition getJob :: "thrown option \<Rightarrow> string \<Rightarrow> queue \<Rightarrow> thrown + queue_entry option" where
  "getJob fault key q =
     (case fault of
        Some e \<Rightarrow> Inl e
      | None \<Rightarrow> Inr (find (\<lambda>j. entry_id j = key) q))"

text \<open>
  Modelled from the spec: \<^verbatim>\<open>previewQueue.add(data, { jobId })\<close> of the Bull
  library. An id the queue has already is not entered again.
\<close>

definition queue_add :: "thrown option \<Rightarrow> PreviewJobData \<Rightarrow> string \<Rightarrow> queue \<Rightarrow> thrown + queue" where
  "queue_add fault job_data key q =
     (case fault of
        Some e \<Rightarrow> Inl e
      | None \<Rightarrow>
          if key \<in> set (map entry_id q) then Inr q
          else Inr (q @ [\<lparr> entry_id = key, entry_data = job_data, entry_state = Waiting \<rparr>]))"

text \<open>
  Modelled from the spec: \<^verbatim>\<open>job.remove()\<close> of the Bull library. The entry leaves
  the queue.
\<close>

definition job_remove :: "thrown option \<Rightarrow> queue_entry \<Rightarrow> queue \<Rightarrow> thrown + queue" where
  "job_remove fault j q =
     (case fault of
        Some e \<Rightarrow> Inl e
      | None \<Rightarrow> Inr (filter (\<lambda>x. entry_id x \<noteq> entry_id j) q))"

record job_counts =
  waiting :: nat
  active :: nat

text \<open>
  Modelled from the spec: \<^verbatim>\<open>previewQueue.getJobCounts()\<close> of the Bull library,
  with the two counts the handlers read.
\<close>

definition count_in :: "job_state \<Rightarrow> queue \<Rightarrow> nat" where
  "count_in st q = length (filter (\<lambda>j. entry_state j = st) q)"

definition getJobCounts :: "thrown option \<Rightarrow> queue \<Rightarrow> thrown + job_counts" where
  "getJobCounts fault q =
     (case fault of
        Some e \<Rightarrow> Inl e
      | None \<Rightarrow> Inr \<lparr> waiting = count_in Waiting q, active = count_in Active q \<rparr>)"

text \<open>
  Modelled from the spec: the delay before the retry that follows the
  \<open>made\<close>-th failed attempt (\<open>made \<ge> 1\<close>), the base delay doubling per attempt.
\<close>

definition backoff_delay :: "job_options \<Rightarrow> nat \<Rightarrow> nat" where
  "backoff_delay opts made =
     (case backoff opts of
        Fixed \<Rightarrow> delay opts
      | Exponential \<Rightarrow> delay opts * 2 ^ (made - 1))"

text \<open>What becomes of the queue entry when the worker is done with it.\<close>

datatype fate = Removed | Retained job_state

record outcome =
  last_result :: "thrown + unit"
  entry_fate :: fate
  attempts_made :: nat
  delays :: "nat list"
  final_store :: store
  trace :: "event list"

text \<open>
  Modelled from the spec: the retry loop of the queue around the processor
  \<^verbatim>\<open>previewQueue.process(2, async (job) => { await processPreviewJob(job.data) })\<close>,
  which throws what the worker throws. \<open>retries\<close> is the number of attempts that
  remain after this one, \<open>made\<close> the number made before it; the \<open>k\<close>-th attempt
  runs in the world \<open>ws k\<close>. A failed attempt is followed by another one, after the
  backoff delay, until the cap is reached.
\<close>

fun run_job ::
    "job_options \<Rightarrow> (nat \<Rightarrow> world) \<Rightarrow> PreviewJobData \<Rightarrow> nat \<Rightarrow> nat \<Rightarrow> store \<Rightarrow> outcome" where
  "run_job opts ws d 0 made s =
     (case processPreviewJob (ws made) d s of
        (Inr u, s', tr) \<Rightarrow>
          \<lparr> last_result = Inr u,
            entry_fate = (if removeOnComplete opts then Removed else Retained Completed),
            attempts_made = Suc made, delays = [], final_store = s', trace = tr \<rparr>
      | (Inl e, s', tr) \<Rightarrow>
          \<lparr> last_result = Inl e,
            entry_fate = (if removeOnFail opts then Removed else Retained FailedJob),
            attempts_made = Suc made, delays = [], final_store = s', trace = tr \<rparr>)"
| "run_job opts ws d (Suc retries) made s =
     (case processPreviewJob (ws made) d s of
        (Inr u, s', tr) \<Rightarrow>
          \<lparr> last_result = Inr u,
            entry_fate = (if removeOnComplete opts then Removed else Retained Completed),
            attempts_made = Suc made, delays = [], final_store = s', trace = tr \<rparr>
      | (Inl e, s', tr) \<Rightarrow>
          (let r = run_job opts ws d retries (Suc made) s' in
           r\<lparr> delays := backoff_delay opts (Suc made) # delays r,
              trace := tr @ trace r \<rparr>))"

text \<open>A job under \<^verbatim>\<open>defaultJobOptions\<close>: \<^verbatim>\<open>attempts\<close> attempts in all.\<close>

definition process :: "(nat \<Rightarrow> world) \<Rightarrow> PreviewJobData \<Rightarrow> store \<Rightarrow> outcome" where
  "process ws d s =
     run_job defaultJobOptions ws d (attempts defaultJobOptions - 1) 0 s"

section \<open>The request handlers\<close>

record request_body =
  body_prompt :: "string option"
  body_userId :: "string option"

text \<open>
  The JSON bodies of the answers: \<open>Failure error details\<close>,
  \<open>Submitted message jobId statusUrl\<close>, the status view (the row with
  \<^verbatim>\<open>queuePosition\<close> and \<^verbatim>\<open>estimatedTime\<close>, \<open>None\<close> for \<^verbatim>\<open>null\<close>),
  \<open>Listing previews\<close> and \<open>Done message\<close>.
\<close>

datatype payload =
    Failure string "string option"
  | Submitted string string string
  | StatusView (view_success: bool) (view_row: preview)
      (view_queuePosition: "nat option") (view_estimatedTime: "nat option")
  | Listing "preview list"
  | Done string

record response =
  code :: nat
  payload :: payload

record app =
  previews :: store
  previewQueue :: queue

definition mk_job_id :: "world \<Rightarrow> string" where
  "mk_job_id w = ''preview_'' @ stamp w @ ''_'' @ rnd w"

text \<open>
  \<^verbatim>\<open>app.post('/api/preview', ...)\<close> of orchestrator-api (the handler with the
  validation).
\<close>

definition post_preview :: "world \<Rightarrow> request_body \<Rightarrow> app \<Rightarrow> response \<times> app" where
  "post_preview w b a =
     (if falsy (body_prompt b) \<or> falsy (body_userId b) then
        (\<lparr> code = 400,
           payload = Failure ''Missing required fields: prompt and userId'' None \<rparr>, a)
      else
        let job_id = mk_job_id w in
        case db_add (faults w 0)
               \<lparr> pid = job_id, prompt = body_prompt b, userId = body_userId b,
                 status = Building, liveUrl = None, error = None,
                 createdAt = clock w 0, updatedAt = clock w 1 \<rparr> (previews a) of
          Inl e \<Rightarrow>
            (\<lparr> code = 500,
               payload = Failure ''Failed to queue preview job'' (Some (message_of e)) \<rparr>, a)
        | Inr ps \<Rightarrow>
            (case queue_add (faults w 1)
                    \<lparr> jobId = job_id, job_prompt = body_prompt b,
                      job_userId = body_userId b \<rparr> job_id (previewQueue a) of
               Inl e \<Rightarrow>
                 (\<lparr> code = 500,
                    payload = Failure ''Failed to queue preview job'' (Some (message_of e)) \<rparr>,
                  a\<lparr> previews := ps \<rparr>)
             | Inr q \<Rightarrow>
                 (\<lparr> code = 200,
                    payload = Submitted ''Preview generation started in background'' job_id
                                (''/api/preview/'' @ job_id @ ''/status'') \<rparr>,
                  \<lparr> previews = ps, previewQueue = q \<rparr>)))"

text \<open>
  \<^verbatim>\<open>app.post('/api/preview', ...)\<close> of live-preview-engine: no validation, and
  \<^verbatim>\<open>userId || 'anonymous'\<close> for the owner.
\<close>

definition post_preview_engine :: "world \<Rightarrow> request_body \<Rightarrow> app \<Rightarrow> response \<times> app" where
  "post_preview_engine w b a =
     (let job_id = mk_job_id w in
      case db_add (faults w 0)
             \<lparr> pid = job_id, prompt = body_prompt b,
               userId = Some (str_or (body_userId b) ''anonymous''),
               status = Building, liveUrl = None, error = None,
               createdAt = clock w 0, updatedAt = clock w 1 \<rparr> (previews a) of
        Inl e \<Rightarrow>
          (\<lparr> code = 500,
             payload = Failure ''Failed to start preview generation'' (Some (message_of e)) \<rparr>, a)
      | Inr ps \<Rightarrow>
          (case queue_add (faults w 1)
                  \<lparr> jobId = job_id, job_prompt = body_prompt b,
                    job_userId = Some (str_or (body_userId b) ''anonymous'') \<rparr>
                  job_id (previewQueue a) of
             Inl e \<Rightarrow>
               (\<lparr> code = 500,
                  payload = Failure ''Failed to start preview generation''
                              (Some (message_of e)) \<rparr>,
                a\<lparr> previews := ps \<rparr>)
           | Inr q \<Rightarrow>
               (\<lparr> code = 200,
                  payload = Submitted ''Preview generation started in background'' job_id
                              (''/api/preview/'' @ job_id) \<rparr>,
                \<lparr> previews = ps, previewQueue = q \<rparr>)))"

text \<open>JavaScript truthiness of a number that may be \<^verbatim>\<open>null\<close>.\<close>

fun truthy_num :: "nat option \<Rightarrow> bool" where
  "truthy_num None = False"
| "truthy_num (Some n) = (n \<noteq> 0)"

text \<open>
  The local \<^verbatim>\<open>queuePosition\<close> of the status handlers: \<^verbatim>\<open>null\<close> unless the queue
  has the job.
\<close>

definition queue_position :: "world \<Rightarrow> queue_entry option \<Rightarrow> queue \<Rightarrow> thrown + nat option" where
  "queue_position w job q =
     (case job of
        None \<Rightarrow> Inr None
      | Some j \<Rightarrow>
          (case getJobCounts (faults w 2) q of
             Inl e \<Rightarrow> Inl e
           | Inr jobCounts \<Rightarrow> Inr (Some (waiting jobCounts + active jobCounts + 1))))"

text \<open>
  \<^verbatim>\<open>app.get('/api/preview/:jobId/status', ...)\<close> of orchestrator-api
  (\<open>with_success = True\<close>: the body starts with \<^verbatim>\<open>success: true\<close>) and
  \<^verbatim>\<open>app.get('/api/preview/:id', ...)\<close> of live-preview-engine (\<open>with_success = False\<close>),
  which are the same otherwise.
\<close>

definition get_status :: "bool \<Rightarrow> world \<Rightarrow> string \<Rightarrow> app \<Rightarrow> response" where
  "get_status with_success w key a =
     (case db_get (faults w 0) key (previews a) of
        Inl e \<Rightarrow> \<lparr> code = 500, payload = Failure ''Failed to fetch preview status'' None \<rparr>
      | Inr None \<Rightarrow> \<lparr> code = 404, payload = Failure ''Preview not found'' None \<rparr>
      | Inr (Some preview) \<Rightarrow>
          (case getJob (faults w 1) key (previewQueue a) of
             Inl e \<Rightarrow> \<lparr> code = 500, payload = Failure ''Failed to fetch preview status'' None \<rparr>
           | Inr job \<Rightarrow>
               (case queue_position w job (previewQueue a) of
                  Inl e \<Rightarrow>
                    \<lparr> code = 500, payload = Failure ''Failed to fetch preview status'' None \<rparr>
                | Inr queuePosition \<Rightarrow>
                    \<lparr> code = 200,
                      payload = StatusView with_success preview
                        (if truthy_num queuePosition \<and> status preview = Building
                         then queuePosition else None)
                        (if truthy_num queuePosition
                         then map_option (\<lambda>n. n * 30) queuePosition else None) \<rparr>)))"

text \<open>
  Modelled from the spec: the query
  \<^verbatim>\<open>db.previews.where('userId').equals(userId).reverse().sortBy('createdAt')\<close> is
  the store's list-by-owner ordered by creation time descending. A collection is its
  rows and its direction; \<open>sortBy\<close> sorts by the key, stably, in the direction of
  the collection.
\<close>

record collection =
  rows :: "preview list"
  reversed :: bool

definition where_userId_equals :: "store \<Rightarrow> string \<Rightarrow> collection" where
  "where_userId_equals s u = \<lparr> rows = filter (\<lambda>p. userId p = Some u) s, reversed = False \<rparr>"

text \<open>Modelled from the spec: \<^verbatim>\<open>reverse()\<close> turns the direction of the collection.\<close>

definition reverse :: "collection \<Rightarrow> collection" where
  "reverse c = c\<lparr> reversed := \<not> reversed c \<rparr>"

text \<open>
  Modelled from the spec: \<^verbatim>\<open>sortBy('createdAt')\<close> reads the rows and sorts them,
  the newest first when the collection is reversed.
\<close>

definition sortBy_createdAt :: "thrown option \<Rightarrow> collection \<Rightarrow> thrown + preview list" where
  "sortBy_createdAt fault c =
     (case fault of
        Some e \<Rightarrow> Inl e
      | None \<Rightarrow>
          if reversed c then Inr (rev (sort_key createdAt (rows c)))
          else Inr (sort_key createdAt (rows c)))"

text \<open>\<^verbatim>\<open>app.get('/api/previews/:userId', ...)\<close>, the same in both applications.\<close>

definition list_previews :: "world \<Rightarrow> string \<Rightarrow> app \<Rightarrow> response" where
  "list_previews w u a =
     (case sortBy_createdAt (faults w 0) (reverse (where_userId_equals (previews a) u)) of
        Inl e \<Rightarrow> \<lparr> code = 500, payload = Failure ''Failed to fetch previews'' None \<rparr>
      | Inr found \<Rightarrow> \<lparr> code = 200, payload = Listing found \<rparr>)"

text \<open>\<^verbatim>\<open>app.delete('/api/preview/:jobId', ...)\<close>, the same in both applications.\<close>

definition cancel_preview :: "world \<Rightarrow> string \<Rightarrow> app \<Rightarrow> response \<times> app" where
  "cancel_preview w key a =
     (case getJob (faults w 0) key (previewQueue a) of
        Inl e \<Rightarrow> (\<lparr> code = 500, payload = Failure ''Failed to cancel preview'' None \<rparr>, a)
      | Inr job \<Rightarrow>
          (case (case job of
                   None \<Rightarrow> Inr (previewQueue a)
                 | Some j \<Rightarrow> job_remove (faults w 1) j (previewQueue a)) of
             Inl e \<Rightarrow> (\<lparr> code = 500, payload = Failure ''Failed to cancel preview'' None \<rparr>, a)
           | Inr q \<Rightarrow>
               (case db_update (faults w 2) key
                       \<lparr> new_status = Failed, new_liveUrl = None,
                         new_error = Some ''Cancelled by user'',
                         new_updatedAt = clock w 0 \<rparr> (previews a) of
                  Inl e \<Rightarrow>
                    (\<lparr> code = 500, payload = Failure ''Failed to cancel preview'' None \<rparr>,
                     a\<lparr> previewQueue := q \<rparr>)
                | Inr ps \<Rightarrow>
                    (\<lparr> code = 200, payload = Done ''Preview cancelled'' \<rparr>,
                     \<lparr> previews = ps, previewQueue = q \<rparr>))))"

section \<open>The deployment target: netlify.ts\<close>

text \<open>
  The \<^verbatim>\<open>data\<close> of a fulfilled response: \<^verbatim>\<open>null\<close>, \<^verbatim>\<open>undefined\<close>, or a value
  that has properties, with its \<^verbatim>\<open>id\<close> if it has one.
\<close>

datatype response_data = NullData | UndefinedData | SiteData "string option"

text \<open>
  The outcome of \<^verbatim>\<open>axios.post\<close>: fulfilled with a response and its \<^verbatim>\<open>data\<close>,
  rejected with an Axios error (\<^verbatim>\<open>error.response?.data?.message\<close> and
  \<^verbatim>\<open>error.message\<close>), or rejected with another value.
\<close>

datatype http_outcome =
    Fulfilled response_data
  | AxiosError "string option" string
  | Rejected thrown

text \<open>
  The \<^verbatim>\<open>TypeError\<close> of reading the property \<^verbatim>\<open>id\<close> of \<^verbatim>\<open>null\<close> or of
  \<^verbatim>\<open>undefined\<close>.
\<close>

definition cannot_read_id :: "string \<Rightarrow> thrown" where
  "cannot_read_id what =
     Err (''Cannot read properties of '' @ what @ '' (reading '' @
          [CHR 0x27] @ ''id'' @ [CHR 0x27] @ '')'')"

text \<open>
  \<^verbatim>\<open>const siteId = siteResponse.data.id\<close>, inside the \<^verbatim>\<open>try\<close>: the read throws
  when the data is \<^verbatim>\<open>null\<close> or \<^verbatim>\<open>undefined\<close>.
\<close>

fun read_site_id :: "response_data \<Rightarrow> thrown + string option" where
  "read_site_id NullData = Inl (cannot_read_id ''null'')"
| "read_site_id UndefinedData = Inl (cannot_read_id ''undefined'')"
| "read_site_id (SiteData siteId) = Inr siteId"

text \<open>
  The environment of \<^verbatim>\<open>deployToNetlify\<close>: the variable \<^verbatim>\<open>NETLIFY_TOKEN\<close> and
  what the request for a URL, a site name and an \<^verbatim>\<open>Authorization\<close> header comes to.
\<close>

record netlify_env =
  NETLIFY_TOKEN :: "string option"
  axios_post :: "string \<Rightarrow> string \<Rightarrow> string \<Rightarrow> http_outcome"

datatype io = HttpPost string string

definition NETLIFY_API :: string where
  "NETLIFY_API = ''https://api.netlify.com/api/v1''"

text \<open>
  \<^verbatim>\<open>deployToNetlify(appFolderPath, siteName)\<close>: the result and the input and output
  the call performs. The \<^verbatim>\<open>catch\<close> block wraps an Axios error and throws any
  other value again, the \<^verbatim>\<open>TypeError\<close> of the read of \<^verbatim>\<open>id\<close> among them.
\<close>

definition deployToNetlify :: "netlify_env \<Rightarrow> string \<Rightarrow> string \<Rightarrow> (thrown + string) \<times> io list" where
  "deployToNetlify env appFolderPath siteName =
     (if falsy (NETLIFY_TOKEN env) then
        (Inl (Err ''NETLIFY_TOKEN environment variable is not set''), [])
      else
        let token = str_or (NETLIFY_TOKEN env) [];
            call = [HttpPost (NETLIFY_API @ ''/sites'') siteName]
        in
        case axios_post env (NETLIFY_API @ ''/sites'') siteName (''Bearer '' @ token) of
          Fulfilled data \<Rightarrow>
            (case read_site_id data of
               Inl e \<Rightarrow> (Inl e, call)
             | Inr siteId \<Rightarrow> (Inr (''https://'' @ siteName @ ''.netlify.app''), call))
        | AxiosError response_message msg \<Rightarrow>
            (Inl (Err (''Netlify API error: '' @ str_or response_message msg)), call)
        | Rejected e \<Rightarrow> (Inl e, call))"

section \<open>Reading a run\<close>

text \<open>The statuses a run writes, in the order of the writes.\<close>

fun written :: "event list \<Rightarrow> status list" where
  "written [] = []"
| "written (DbUpdate k st # es) = st # written es"
| "written (e # es) = written es"

text \<open>
  The place of a status in the state machine
  building, generating, deploying, live or failed.
\<close>

fun rank :: "status \<Rightarrow> nat" where
  "rank Building = 0"
| "rank Generating = 1"
| "rank Deploying = 2"
| "rank Live = 3"
| "rank Failed = 3"

text \<open>A sequence of statuses that never moves backward.\<close>

definition forward :: "status list \<Rightarrow> bool" where
  "forward sts = sorted (map rank sts)"

text \<open>\<open>a\<close> happens before the first \<open>b\<close> of the run.\<close>

definition precedes :: "event \<Rightarrow> event \<Rightarrow> event list \<Rightarrow> bool" where
  "precedes a b tr = (b \<in> set tr \<and> a \<in> set (takeWhile (\<lambda>x. x \<noteq> b) tr))"

text \<open>The statuses of the rows with a key.\<close>

definition status_of :: "string \<Rightarrow> store \<Rightarrow> status list" where
  "status_of key s = map status (filter (\<lambda>p. pid p = key) s)"

section \<open>Sample inputs\<close>

definition job1 :: PreviewJobData where
  "job1 = \<lparr> jobId = ''preview_1_a'', job_prompt = Some ''todo app'', job_userId = Some ''u1'' \<rparr>"

definition row1 :: preview where
  "row1 = \<lparr> pid = ''preview_1_a'', prompt = Some ''todo app'', userId = Some ''u1'',
            status = Building, liveUrl = None, error = None, createdAt = 1, updatedAt = 1 \<rparr>"

definition entry1 :: queue_entry where
  "entry1 = \<lparr> entry_id = ''preview_1_a'', entry_data = job1, entry_state = Active \<rparr>"

text \<open>A world where nothing fails and nothing else touches the store.\<close>

definition quiet :: world where
  "quiet =
     \<lparr> faults = (\<lambda>k. None), clock = (\<lambda>k. 1000 + k), stamp = ''1700000000000'',
       rnd = ''k3x9q2m1z'', fs_copy = (\<lambda>k. None),
       deploy = (\<lambda>p. Inr (Some ''https://demo.netlify.app'')),
       during_generate = (\<lambda>s. s), during_deploy = (\<lambda>s. s) \<rparr>"

text \<open>The deployment throws.\<close>

definition deploy_down :: world where
  "deploy_down = quiet\<lparr> deploy := (\<lambda>p. Inl (Err ''Netlify API error: Unauthorized'')) \<rparr>"

text \<open>The deployment returns the empty string.\<close>

definition no_url :: world where
  "no_url = quiet\<lparr> deploy := (\<lambda>p. Inr (Some [])) \<rparr>"

text \<open>The first attempt meets the failing deployment, the later ones do not.\<close>

definition first_fails :: "nat \<Rightarrow> world" where
  "first_fails k = (if k = 0 then deploy_down else quiet)"

text \<open>Every attempt meets the failing deployment.\<close>

definition always_fails :: "nat \<Rightarrow> world" where
  "always_fails k = deploy_down"

text \<open>
  The job is cancelled through the DELETE handler while the worker waits for the
  deployment.
\<close>

definition cancelled_meanwhile :: world where
  "cancelled_meanwhile =
     quiet\<lparr> during_deploy :=
       (\<lambda>s. previews (snd (cancel_preview quiet ''preview_1_a''
                             \<lparr> previews = s, previewQueue = [entry1] \<rparr>))) \<rparr>"

text \<open>A second job, waiting behind the first.\<close>

definition entry2 :: queue_entry where
  "entry2 =
     \<lparr> entry_id = ''preview_2_b'',
       entry_data = \<lparr> jobId = ''preview_2_b'', job_prompt = Some ''blog'',
                      job_userId = Some ''u2'' \<rparr>,
       entry_state = Waiting \<rparr>"

definition row2 :: preview where
  "row2 = \<lparr> pid = ''preview_2_b'', prompt = Some ''blog'', userId = Some ''u2'',
            status = Building, liveUrl = None, error = None, createdAt = 2, updatedAt = 2 \<rparr>"

text \<open>A later job of the first owner.\<close>

definition row3 :: preview where
  "row3 = \<lparr> pid = ''preview_3_c'', prompt = Some ''shop'', userId = Some ''u1'',
            status = Building, liveUrl = None, error = None, createdAt = 3, updatedAt = 3 \<rparr>"

text \<open>The worker has the first job and has written \<^verbatim>\<open>generating\<close>.\<close>

definition app_generating :: app where
  "app_generating =
     \<lparr> previews = [row1\<lparr> status := Generating \<rparr>, row2],
       previewQueue = [entry1, entry2] \<rparr>"

text \<open>The first job waits in the queue.\<close>

definition app_waiting :: app where
  "app_waiting =
     \<lparr> previews = [row1, row2, row3],
       previewQueue = [entry1\<lparr> entry_state := Waiting \<rparr>, entry2] \<rparr>"

definition app_empty :: app where
  "app_empty = \<lparr> previews = [], previewQueue = [] \<rparr>"

text \<open>A submission with no \<^verbatim>\<open>userId\<close>.\<close>

definition body_no_user :: request_body where
  "body_no_user = \<lparr> body_prompt = Some ''todo app'', body_userId = None \<rparr>"

text \<open>A Netlify account whose site-creation request is fulfilled.\<close>

definition netlify_ok :: netlify_env where
  "netlify_ok =
     \<lparr> NETLIFY_TOKEN = Some ''nfp_token'',
       axios_post = (\<lambda>url name auth. Fulfilled (SiteData (Some ''site-1''))) \<rparr>"

text \<open>A request that is fulfilled with a response whose data is \<^verbatim>\<open>null\<close>.\<close>

definition netlify_null :: netlify_env where
  "netlify_null =
     \<lparr> NETLIFY_TOKEN = Some ''nfp_token'',
       axios_post = (\<lambda>url name auth. Fulfilled NullData) \<rparr>"

section \<open>Auxiliary facts\<close>

lemma written_append: "written (xs @ ys) = written xs @ written ys"
  by (induction xs rule: written.induct) simp_all

lemma generate_path: "generateAppCode w = Inr path \<Longrightarrow> path = outputPath w"
  by (simp add: generateAppCode_def split: sum.splits)

lemma outputPath_nonempty: "outputPath w \<noteq> []" "[] \<noteq> outputPath w"
  by (simp_all add: outputPath_def)

lemma status_of_set_row:
  "status_of key (set_row key c s) = replicate (length (status_of key s)) (new_status c)"
  by (induction s) (simp_all add: status_of_def set_row_def apply_changes_def)

lemma set_row_rows:
  assumes "p \<in> set (set_row key c s)" and "pid p = key"
  shows "status p = new_status c \<and> (new_error c \<noteq> None \<longrightarrow> error p = new_error c) \<and>
     (new_liveUrl c \<noteq> None \<longrightarrow> liveUrl p = new_liveUrl c)"
proof -
  from assms(1) obtain q where q: "q \<in> set s"
      and p: "p = (if pid q = key then apply_changes c q else q)"
    unfolding set_row_def by auto
  show ?thesis
  proof (cases "pid q = key")
    case True
    with p show ?thesis
      by (cases "new_error c"; cases "new_liveUrl c") (simp_all add: apply_changes_def)
  next
    case False
    with p assms(2) show ?thesis by simp
  qed
qed

lemma set_row_absent: "find (\<lambda>p. pid p = key) s = None \<Longrightarrow> set_row key c s = s"
  by (induction s) (simp_all add: set_row_def split: if_splits)

lemma find_entry_None:
  "(find (\<lambda>j. entry_id j = key) q = None) = (key \<notin> set (map entry_id q))"
  by (induction q) auto

lemma find_entry_Some:
  "key \<in> set (map entry_id q) \<Longrightarrow> \<exists>j. find (\<lambda>j. entry_id j = key) q = Some j"
  by (induction q) auto

text \<open>The run in which every store call, the generation and the deployment work.\<close>

lemma run_success:
  assumes "faults w 0 = None" and "faults w 1 = None" and "faults w 2 = None"
    and "generateAppCode w = Inr path"
    and "deploy w path = Inr (Some u)" and "u \<noteq> []"
  shows "processPreviewJob w d s =
     (Inr (),
      set_row (jobId d)
        \<lparr> new_status = Live, new_liveUrl = Some u, new_error = None,
          new_updatedAt = clock w 2 \<rparr>
        (during_deploy w
          (set_row (jobId d) (status_change Generating (clock w 1))
            (during_generate w
              (set_row (jobId d) (status_change Building (clock w 0)) s)))),
      [DbUpdate (jobId d) Building, Generate (job_prompt d),
       DbUpdate (jobId d) Generating, Deploy path,
       DbUpdate (jobId d) Live, FsRemove path])"
  using assms
  by (simp add: processPreviewJob_def db_update_def Let_def)

text \<open>The run in which the deployment returns no URL, or the empty one.\<close>

lemma run_no_url:
  assumes "faults w 0 = None" and "faults w 1 = None" and "faults w 3 = None"
    and "generateAppCode w = Inr path"
    and "deploy w path = Inr url" and "falsy url"
  shows "processPreviewJob w d s =
     (Inl (Err ''Failed to get deployment URL from Netlify''),
      set_row (jobId d)
        \<lparr> new_status = Failed, new_liveUrl = None,
          new_error = Some ''Failed to get deployment URL from Netlify'',
          new_updatedAt = clock w 3 \<rparr>
        (during_deploy w
          (set_row (jobId d) (status_change Generating (clock w 1))
            (during_generate w
              (set_row (jobId d) (status_change Building (clock w 0)) s)))),
      [DbUpdate (jobId d) Building, Generate (job_prompt d),
       DbUpdate (jobId d) Generating, Deploy path, FsRemove path,
       DbUpdate (jobId d) Failed])"
proof -
  have "path \<noteq> []"
    using generate_path [OF assms(4)] by (simp add: outputPath_def)
  with assms show ?thesis
    by (simp add: processPreviewJob_def on_error_def db_update_def Let_def)
qed

text \<open>A list sorted by \<open>createdAt\<close> and reversed has its newest row first.\<close>

lemma newest_first_adjacent:
  assumes "Suc i < length xs"
  shows "createdAt (rev (sort_key createdAt xs) ! Suc i)
           \<le> createdAt (rev (sort_key createdAt xs) ! i)"
proof -
  let ?ys = "rev (sort_key createdAt xs)"
  have "sorted (map createdAt (sort_key createdAt xs))"
    by (rule sorted_sort_key)
  then have "sorted (rev (map createdAt ?ys))"
    by (simp add: rev_map)
  then have "sorted_wrt (\<ge>) (map createdAt ?ys)"
    by (simp add: sorted_wrt_rev)
  moreover have "i < Suc i" "Suc i < length (map createdAt ?ys)"
    using assms by simp_all
  ultimately have "map createdAt ?ys ! i \<ge> map createdAt ?ys ! Suc i"
    by (rule sorted_wrt_nth_less)
  with assms show ?thesis by simp
qed

section \<open>C1: the order of the persisted statuses\<close>

text \<open>
  C1 as stated fails. The job of the sample run is attempted twice: the first
  attempt meets a failing deployment and leaves the record \<^verbatim>\<open>failed\<close>, the retry
  writes \<^verbatim>\<open>building\<close> over it. The statuses written to the record are building,
  generating, failed, building, generating, live, which is not a forward sequence.
\<close>

theorem retry_moves_backward:
  "status_of ''preview_1_a'' (fst (snd (processPreviewJob deploy_down job1 [row1]))) = [Failed] \<and>
   written (trace (process first_fails job1 [row1])) =
     [Building, Generating, Failed, Building, Generating, Live] \<and>
   \<not> forward (written (trace (process first_fails job1 [row1])))"
  by code_simp

text \<open>
  C1, amended: within one attempt of \<^verbatim>\<open>processPreviewJob\<close> the statuses the worker
  writes never move backward in the state machine, whatever the store, the
  capabilities and the concurrent requests do; and every attempt whose first store
  call works starts by writing \<^verbatim>\<open>building\<close>, whatever status the record had, so a
  record left \<^verbatim>\<open>failed\<close> by an earlier attempt is set back to \<^verbatim>\<open>building\<close> by the
  retry.
\<close>

theorem attempt_forward:
  "forward (written (snd (snd (processPreviewJob w d s)))) \<and>
   (faults w 0 = None \<longrightarrow> take 1 (written (snd (snd (processPreviewJob w d s)))) = [Building])"
  by (auto simp: processPreviewJob_def on_error_def forward_def Let_def db_update_def
        written_append split: option.splits sum.splits)

theorem attempt_forward_witness:
  "faults deploy_down 0 = None \<and>
   forward (written (snd (snd (processPreviewJob deploy_down job1
      (fst (snd (processPreviewJob deploy_down job1 [row1]))))))) \<and>
   take 1 (written (snd (snd (processPreviewJob deploy_down job1
      (fst (snd (processPreviewJob deploy_down job1 [row1]))))))) = [Building]"
proof -
  have h: "faults deploy_down 0 = None"
    by (simp add: deploy_down_def quiet_def)
  show ?thesis
    using h attempt_forward [of deploy_down job1
        "fst (snd (processPreviewJob deploy_down job1 [row1]))"]
    by simp
qed

section \<open>C2: the writes and the capability calls\<close>

text \<open>
  C2 as stated fails. In the run where everything works, \<^verbatim>\<open>generating\<close> is not
  written before the generator is called (it is written after the generator has
  returned), and \<^verbatim>\<open>deploying\<close> is never written.
\<close>

theorem generating_written_after_generation:
  "fst (processPreviewJob quiet job1 [row1]) = Inr () \<and>
   \<not> precedes (DbUpdate ''preview_1_a'' Generating) (Generate (Some ''todo app''))
       (snd (snd (processPreviewJob quiet job1 [row1]))) \<and>
   DbUpdate ''preview_1_a'' Deploying \<notin> set (snd (snd (processPreviewJob quiet job1 [row1])))"
  by code_simp

text \<open>
  C2, amended: in every run the worker writes \<^verbatim>\<open>building\<close> before it calls the
  generator, writes \<^verbatim>\<open>generating\<close> after the generator has returned and before it
  calls the deployment, and writes \<^verbatim>\<open>live\<close> only after the deployment has returned
  a URL that is not empty; \<^verbatim>\<open>deploying\<close> is never written; and a run that
  succeeds performs exactly the writes building, generating, live around the two
  calls, none left out.
\<close>

theorem write_order:
  "(Generate (job_prompt d) \<in> set (snd (snd (processPreviewJob w d s))) \<longrightarrow>
      precedes (DbUpdate (jobId d) Building) (Generate (job_prompt d))
        (snd (snd (processPreviewJob w d s)))) \<and>
   (Deploy (outputPath w) \<in> set (snd (snd (processPreviewJob w d s))) \<longrightarrow>
      precedes (DbUpdate (jobId d) Generating) (Deploy (outputPath w))
        (snd (snd (processPreviewJob w d s))) \<and>
      precedes (Generate (job_prompt d)) (DbUpdate (jobId d) Generating)
        (snd (snd (processPreviewJob w d s)))) \<and>
   (DbUpdate (jobId d) Live \<in> set (snd (snd (processPreviewJob w d s))) \<longrightarrow>
      precedes (Deploy (outputPath w)) (DbUpdate (jobId d) Live)
        (snd (snd (processPreviewJob w d s))) \<and>
      (case deploy w (outputPath w) of Inl e \<Rightarrow> False | Inr url \<Rightarrow> \<not> falsy url)) \<and>
   DbUpdate (jobId d) Deploying \<notin> set (snd (snd (processPreviewJob w d s))) \<and>
   (fst (processPreviewJob w d s) = Inr () \<longrightarrow>
      snd (snd (processPreviewJob w d s)) =
        [DbUpdate (jobId d) Building, Generate (job_prompt d),
         DbUpdate (jobId d) Generating, Deploy (outputPath w),
         DbUpdate (jobId d) Live, FsRemove (outputPath w)])"
  by (auto simp: processPreviewJob_def on_error_def Let_def db_update_def precedes_def
        outputPath_nonempty dest!: generate_path split: option.splits sum.splits)

theorem write_order_witness:
  "Generate (job_prompt job1) \<in> set (snd (snd (processPreviewJob quiet job1 [row1]))) \<and>
   Deploy (outputPath quiet) \<in> set (snd (snd (processPreviewJob quiet job1 [row1]))) \<and>
   DbUpdate (jobId job1) Live \<in> set (snd (snd (processPreviewJob quiet job1 [row1]))) \<and>
   fst (processPreviewJob quiet job1 [row1]) = Inr () \<and>
   precedes (DbUpdate (jobId job1) Building) (Generate (job_prompt job1))
     (snd (snd (processPreviewJob quiet job1 [row1]))) \<and>
   precedes (DbUpdate (jobId job1) Generating) (Deploy (outputPath quiet))
     (snd (snd (processPreviewJob quiet job1 [row1]))) \<and>
   precedes (Deploy (outputPath quiet)) (DbUpdate (jobId job1) Live)
     (snd (snd (processPreviewJob quiet job1 [row1])))"
proof -
  have h1: "Generate (job_prompt job1) \<in> set (snd (snd (processPreviewJob quiet job1 [row1])))"
    by code_simp
  have h2: "Deploy (outputPath quiet) \<in> set (snd (snd (processPreviewJob quiet job1 [row1])))"
    by code_simp
  have h3: "DbUpdate (jobId job1) Live \<in> set (snd (snd (processPreviewJob quiet job1 [row1])))"
    by code_simp
  have h4: "fst (processPreviewJob quiet job1 [row1]) = Inr ()"
    by code_simp
  show ?thesis
    using h1 h2 h3 h4 write_order [of job1 quiet "[row1]"] by blast
qed

section \<open>C3: the final write and a cancellation in flight\<close>

text \<open>
  C3 as stated fails. The job is cancelled through the DELETE handler while the
  worker waits for the deployment: the handler marks the record \<^verbatim>\<open>failed\<close>. The
  deployment then returns its URL, the run ends without an error and the record is
  \<^verbatim>\<open>live\<close>.
\<close>

theorem late_success_overwrites_cancel:
  "status_of ''preview_1_a''
     (during_deploy cancelled_meanwhile [row1\<lparr> status := Generating \<rparr>]) = [Failed] \<and>
   fst (processPreviewJob cancelled_meanwhile job1 [row1]) = Inr () \<and>
   status_of ''preview_1_a'' (fst (snd (processPreviewJob cancelled_meanwhile job1 [row1])))
     = [Live]"
  by code_simp

text \<open>
  C3, amended: the final write of \<^verbatim>\<open>live\<close> is not guarded. When the store calls,
  the generation and the deployment of a run work and the URL is not empty, the
  run writes \<^verbatim>\<open>live\<close> and the URL into the record as the concurrent requests left
  it during the deployment: every record of the job is \<^verbatim>\<open>live\<close> afterwards,
  whatever its status was (the last write wins).
\<close>

theorem live_write_unconditional:
  assumes "faults w 0 = None" and "faults w 1 = None" and "faults w 2 = None"
    and "generateAppCode w = Inr path"
    and "deploy w path = Inr (Some u)" and "u \<noteq> []"
  shows "fst (processPreviewJob w d s) = Inr () \<and>
    fst (snd (processPreviewJob w d s)) =
      set_row (jobId d)
        \<lparr> new_status = Live, new_liveUrl = Some u, new_error = None,
          new_updatedAt = clock w 2 \<rparr>
        (during_deploy w
          (set_row (jobId d) (status_change Generating (clock w 1))
            (during_generate w
              (set_row (jobId d) (status_change Building (clock w 0)) s)))) \<and>
    status_of (jobId d) (fst (snd (processPreviewJob w d s))) =
      replicate
        (length (status_of (jobId d)
          (during_deploy w
            (set_row (jobId d) (status_change Generating (clock w 1))
              (during_generate w
                (set_row (jobId d) (status_change Building (clock w 0)) s))))))
        Live"
  by (simp only: run_success [OF assms] fst_conv snd_conv status_of_set_row)
     simp

theorem live_write_unconditional_witness:
  "faults cancelled_meanwhile 0 = None \<and>
   generateAppCode cancelled_meanwhile = Inr (outputPath cancelled_meanwhile) \<and>
   deploy cancelled_meanwhile (outputPath cancelled_meanwhile)
     = Inr (Some ''https://demo.netlify.app'') \<and>
   fst (processPreviewJob cancelled_meanwhile job1 [row1]) = Inr () \<and>
   status_of (jobId job1) (fst (snd (processPreviewJob cancelled_meanwhile job1 [row1])))
     = [Live]"
proof -
  have h0: "faults cancelled_meanwhile 0 = None" and h1: "faults cancelled_meanwhile 1 = None"
    and h2: "faults cancelled_meanwhile 2 = None"
    by (simp_all add: cancelled_meanwhile_def quiet_def)
  have g: "generateAppCode cancelled_meanwhile = Inr (outputPath cancelled_meanwhile)"
    by code_simp
  have dp: "deploy cancelled_meanwhile (outputPath cancelled_meanwhile)
              = Inr (Some ''https://demo.netlify.app'')"
    by (simp add: cancelled_meanwhile_def quiet_def)
  have u: "''https://demo.netlify.app'' \<noteq> []"
    by simp
  have n: "length (status_of (jobId job1)
          (during_deploy cancelled_meanwhile
            (set_row (jobId job1) (status_change Generating (clock cancelled_meanwhile 1))
              (during_generate cancelled_meanwhile
                (set_row (jobId job1) (status_change Building (clock cancelled_meanwhile 0))
                  [row1]))))) = 1"
    by code_simp
  note run = live_write_unconditional [OF h0 h1 h2 g dp u, of job1 "[row1]"]
  from run have "status_of (jobId job1)
      (fst (snd (processPreviewJob cancelled_meanwhile job1 [row1]))) =
        replicate
          (length (status_of (jobId job1)
            (during_deploy cancelled_meanwhile
              (set_row (jobId job1) (status_change Generating (clock cancelled_meanwhile 1))
                (during_generate cancelled_meanwhile
                  (set_row (jobId job1) (status_change Building (clock cancelled_meanwhile 0))
                    [row1]))))))
          Live"
    by blast
  then have "status_of (jobId job1)
      (fst (snd (processPreviewJob cancelled_meanwhile job1 [row1]))) = [Live]"
    by (simp only: n) simp
  with h0 g dp run show ?thesis
    by blast
qed

section \<open>C4: queue position and estimate in the status answer\<close>

text \<open>
  C4 as stated fails. The worker has the job and has written \<^verbatim>\<open>generating\<close>; the
  queue still has the entry of the job, with one entry active and one waiting. The
  claim asks for the position 3 in the answer to a status poll; the answer has
  \<^verbatim>\<open>null\<close>.
\<close>

theorem position_hidden_while_generating:
  "getJob None ''preview_1_a'' (previewQueue app_generating) = Inr (Some entry1) \<and>
   count_in Waiting (previewQueue app_generating) +
     count_in Active (previewQueue app_generating) + 1 = 3 \<and>
   code (get_status True quiet ''preview_1_a'' app_generating) = 200 \<and>
   view_queuePosition (payload (get_status True quiet ''preview_1_a'' app_generating)) = None"
  by code_simp

text \<open>
  C4, amended: for a status poll of an existing job, answered without a fault of the
  store or the queue: while the queue has an entry for the id and the status is
  \<^verbatim>\<open>building\<close>, \<^verbatim>\<open>queuePosition\<close> is the waiting count plus the active count plus 1
  and \<^verbatim>\<open>estimatedTime\<close> is that position times 30; while the queue has an entry
  and the status is not terminal, \<^verbatim>\<open>estimatedTime\<close> is still that product; as soon
  as the status is not \<^verbatim>\<open>building\<close>, and so once it is \<^verbatim>\<open>live\<close> or \<^verbatim>\<open>failed\<close>,
  \<^verbatim>\<open>queuePosition\<close> is \<^verbatim>\<open>null\<close>; and when the queue has no entry for the id,
  both are \<^verbatim>\<open>null\<close>.
\<close>

theorem status_projection:
  assumes "faults w 0 = None" and "faults w 1 = None" and "faults w 2 = None"
    and "find (\<lambda>p. pid p = key) (previews a) = Some p"
  shows "code (get_status b w key a) = 200 \<and>
    (case payload (get_status b w key a) of
       StatusView b' p' qp et \<Rightarrow> b' = b \<and> p' = p
     | _ \<Rightarrow> False) \<and>
    (key \<in> set (map entry_id (previewQueue a)) \<and> status p = Building \<longrightarrow>
       view_queuePosition (payload (get_status b w key a)) =
         Some (count_in Waiting (previewQueue a) + count_in Active (previewQueue a) + 1) \<and>
       view_estimatedTime (payload (get_status b w key a)) =
         Some ((count_in Waiting (previewQueue a) + count_in Active (previewQueue a) + 1) * 30)) \<and>
    (key \<in> set (map entry_id (previewQueue a)) \<and> status p \<noteq> Live \<and> status p \<noteq> Failed \<longrightarrow>
       view_estimatedTime (payload (get_status b w key a)) =
         Some ((count_in Waiting (previewQueue a) + count_in Active (previewQueue a) + 1) * 30)) \<and>
    (status p \<noteq> Building \<longrightarrow>
       view_queuePosition (payload (get_status b w key a)) = None) \<and>
    (key \<notin> set (map entry_id (previewQueue a)) \<longrightarrow>
       view_queuePosition (payload (get_status b w key a)) = None \<and>
       view_estimatedTime (payload (get_status b w key a)) = None)"
proof (cases "key \<in> set (map entry_id (previewQueue a))")
  case True
  then obtain j where "find (\<lambda>j. entry_id j = key) (previewQueue a) = Some j"
    using find_entry_Some by blast
  with assms True show ?thesis
    by (simp add: get_status_def db_get_def getJob_def queue_position_def getJobCounts_def)
next
  case False
  then have "find (\<lambda>j. entry_id j = key) (previewQueue a) = None"
    by (simp add: find_entry_None)
  with assms False show ?thesis
    by (simp add: get_status_def db_get_def getJob_def queue_position_def)
qed

theorem status_projection_witness:
  "find (\<lambda>p. pid p = ''preview_1_a'') (previews app_waiting) = Some row1 \<and>
   ''preview_1_a'' \<in> set (map entry_id (previewQueue app_waiting)) \<and>
   status row1 = Building \<and>
   code (get_status True quiet ''preview_1_a'' app_waiting) = 200 \<and>
   view_queuePosition (payload (get_status True quiet ''preview_1_a'' app_waiting)) = Some 3 \<and>
   view_estimatedTime (payload (get_status True quiet ''preview_1_a'' app_waiting)) = Some 90"
proof -
  have h0: "faults quiet 0 = None" and h1: "faults quiet 1 = None"
    and h2: "faults quiet 2 = None"
    by (simp_all add: quiet_def)
  have r: "find (\<lambda>p. pid p = ''preview_1_a'') (previews app_waiting) = Some row1"
    by code_simp
  have e: "''preview_1_a'' \<in> set (map entry_id (previewQueue app_waiting))"
    by code_simp
  have b: "status row1 = Building"
    by (simp add: row1_def)
  have c: "count_in Waiting (previewQueue app_waiting) +
             count_in Active (previewQueue app_waiting) + 1 = 3"
    by code_simp
  show ?thesis
    using r e b c status_projection [OF h0 h1 h2 r, of True] by simp
qed

section \<open>C5: a deployment that returns no URL\<close>

text \<open>
  C5: when the deployment call of a run returns no URL or the empty one (the store
  calls before it and the write of the failure working), the run rejects with the
  error, every record of the job has status \<^verbatim>\<open>failed\<close> with the error message
  afterwards, \<^verbatim>\<open>live\<close> is not written, and the write of \<^verbatim>\<open>failed\<close> is the last
  thing the run does.
\<close>

theorem empty_url_fails:
  assumes "faults w 0 = None" and "faults w 1 = None" and "faults w 3 = None"
    and "generateAppCode w = Inr path"
    and "deploy w path = Inr url" and "falsy url"
  shows "fst (processPreviewJob w d s) =
           Inl (Err ''Failed to get deployment URL from Netlify'') \<and>
    (\<forall>p \<in> set (fst (snd (processPreviewJob w d s))).
        pid p = jobId d \<longrightarrow>
          status p = Failed \<and>
          error p = Some ''Failed to get deployment URL from Netlify'') \<and>
    DbUpdate (jobId d) Live \<notin> set (snd (snd (processPreviewJob w d s))) \<and>
    last (snd (snd (processPreviewJob w d s))) = DbUpdate (jobId d) Failed"
proof -
  note run = run_no_url [OF assms, of d s]
  have rows: "\<forall>p \<in> set (fst (snd (processPreviewJob w d s))).
        pid p = jobId d \<longrightarrow>
          status p = Failed \<and>
          error p = Some ''Failed to get deployment URL from Netlify''"
  proof (intro ballI impI)
    fix p
    assume "p \<in> set (fst (snd (processPreviewJob w d s)))" and k: "pid p = jobId d"
    then have "p \<in> set (set_row (jobId d)
        \<lparr> new_status = Failed, new_liveUrl = None,
          new_error = Some ''Failed to get deployment URL from Netlify'',
          new_updatedAt = clock w 3 \<rparr>
        (during_deploy w
          (set_row (jobId d) (status_change Generating (clock w 1))
            (during_generate w
              (set_row (jobId d) (status_change Building (clock w 0)) s)))))"
      by (simp only: run fst_conv snd_conv)
    from set_row_rows [OF this k]
    show "status p = Failed \<and> error p = Some ''Failed to get deployment URL from Netlify''"
      by simp
  qed
  show ?thesis
    using rows by (simp add: run)
qed

theorem empty_url_fails_witness:
  "faults no_url 0 = None \<and> falsy (Some []) \<and>
   fst (processPreviewJob no_url job1 [row1]) =
     Inl (Err ''Failed to get deployment URL from Netlify'') \<and>
   status_of ''preview_1_a'' (fst (snd (processPreviewJob no_url job1 [row1]))) = [Failed] \<and>
   DbUpdate (jobId job1) Live \<notin> set (snd (snd (processPreviewJob no_url job1 [row1]))) \<and>
   last (snd (snd (processPreviewJob no_url job1 [row1]))) = DbUpdate (jobId job1) Failed"
proof -
  have h0: "faults no_url 0 = None" and h1: "faults no_url 1 = None"
    and h3: "faults no_url 3 = None"
    by (simp_all add: no_url_def quiet_def)
  have g: "generateAppCode no_url = Inr (outputPath no_url)"
    by code_simp
  have dp: "deploy no_url (outputPath no_url) = Inr (Some [])"
    by (simp add: no_url_def quiet_def)
  have f: "falsy (Some [])"
    by simp
  have st: "status_of ''preview_1_a'' (fst (snd (processPreviewJob no_url job1 [row1]))) = [Failed]"
    by code_simp
  show ?thesis
    using h0 f st empty_url_fails [OF h0 h1 h3 g dp f, of job1 "[row1]"] by simp
qed

section \<open>C6: the retry configuration\<close>

text \<open>
  C6: \<^verbatim>\<open>defaultJobOptions\<close> has 3 attempts, exponential backoff from a delay of
  2000 milliseconds, \<^verbatim>\<open>removeOnFail\<close> false and \<^verbatim>\<open>removeOnComplete\<close> true. Under
  it every job is attempted at least once and at most 3 times, with a delay before
  every attempt but the first, the first of these delays being 2000; the entry of a
  job whose last attempt worked is removed; a job whose last attempt failed has
  used all 3 attempts and its entry is retained as failed.
\<close>

theorem retry_policy:
  "attempts defaultJobOptions = 3 \<and>
   backoff defaultJobOptions = Exponential \<and>
   delay defaultJobOptions = 2000 \<and>
   removeOnFail defaultJobOptions = False \<and>
   removeOnComplete defaultJobOptions = True \<and>
   1 \<le> attempts_made (process ws d s) \<and>
   attempts_made (process ws d s) \<le> 3 \<and>
   length (delays (process ws d s)) = attempts_made (process ws d s) - 1 \<and>
   take 1 (delays (process ws d s)) =
     (if attempts_made (process ws d s) = 1 then [] else [2000]) \<and>
   (last_result (process ws d s) = Inr () \<longrightarrow> entry_fate (process ws d s) = Removed) \<and>
   (last_result (process ws d s) \<noteq> Inr () \<longrightarrow>
      attempts_made (process ws d s) = 3 \<and>
      entry_fate (process ws d s) = Retained FailedJob)"
  by (simp add: process_def defaultJobOptions_def backoff_delay_def numeral_2_eq_2 Let_def
        split: prod.splits sum.splits)

theorem retry_policy_witness:
  "last_result (process always_fails job1 [row1]) \<noteq> Inr () \<and>
   attempts_made (process always_fails job1 [row1]) = 3 \<and>
   length (delays (process always_fails job1 [row1])) = 2 \<and>
   take 1 (delays (process always_fails job1 [row1])) = [2000] \<and>
   entry_fate (process always_fails job1 [row1]) = Retained FailedJob"
proof -
  have h: "last_result (process always_fails job1 [row1]) \<noteq> Inr ()"
    by code_simp
  show ?thesis
    using h retry_policy [of always_fails job1 "[row1]"] by simp
qed

section \<open>C7: a submission with a missing field\<close>

text \<open>
  C7 as stated fails. The POST handler of live-preview-engine has no validation: a
  submission with no \<^verbatim>\<open>userId\<close> is answered with success, its record is inserted
  with the owner \<^verbatim>\<open>anonymous\<close> and its entry is put in the queue.
\<close>

theorem engine_accepts_missing_userId:
  "falsy (body_userId body_no_user) \<and>
   code (fst (post_preview_engine quiet body_no_user app_empty)) = 200 \<and>
   map userId (previews (snd (post_preview_engine quiet body_no_user app_empty)))
     = [Some ''anonymous''] \<and>
   map entry_id (previewQueue (snd (post_preview_engine quiet body_no_user app_empty)))
     = [''preview_1700000000000_k3x9q2m1z'']"
  by code_simp

text \<open>
  C7, amended: the POST handler of orchestrator-api answers a submission whose
  \<^verbatim>\<open>prompt\<close> or \<^verbatim>\<open>userId\<close> is missing or empty with the status 400 and leaves the
  store and the queue as they were. The POST handler of live-preview-engine does
  not reject a submission that has a prompt and no \<^verbatim>\<open>userId\<close>: when the store and
  the queue work and the generated id is new, it answers with success, inserts the
  record with the owner \<^verbatim>\<open>anonymous\<close> and puts the entry in the queue.
\<close>

theorem validation_rejects:
  "(falsy (body_prompt b) \<or> falsy (body_userId b) \<longrightarrow>
      post_preview w b a =
        (\<lparr> code = 400,
           payload = Failure ''Missing required fields: prompt and userId'' None \<rparr>, a)) \<and>
   (\<not> falsy (body_prompt b) \<and> falsy (body_userId b) \<and>
    faults w 0 = None \<and> faults w 1 = None \<and>
    mk_job_id w \<notin> set (map pid (previews a)) \<and>
    mk_job_id w \<notin> set (map entry_id (previewQueue a)) \<longrightarrow>
      code (fst (post_preview_engine w b a)) = 200 \<and>
      previews (snd (post_preview_engine w b a)) =
        previews a @
        [\<lparr> pid = mk_job_id w, prompt = body_prompt b, userId = Some ''anonymous'',
           status = Building, liveUrl = None, error = None,
           createdAt = clock w 0, updatedAt = clock w 1 \<rparr>] \<and>
      previewQueue (snd (post_preview_engine w b a)) =
        previewQueue a @
        [\<lparr> entry_id = mk_job_id w,
           entry_data = \<lparr> jobId = mk_job_id w, job_prompt = body_prompt b,
                          job_userId = Some ''anonymous'' \<rparr>,
           entry_state = Waiting \<rparr>])"
  by (cases "body_userId b")
     (auto simp: post_preview_def post_preview_engine_def db_add_def queue_add_def Let_def)

theorem validation_rejects_witness:
  "falsy (body_userId body_no_user) \<and> \<not> falsy (body_prompt body_no_user) \<and>
   post_preview quiet body_no_user app_waiting =
     (\<lparr> code = 400,
        payload = Failure ''Missing required fields: prompt and userId'' None \<rparr>, app_waiting) \<and>
   code (fst (post_preview_engine quiet body_no_user app_waiting)) = 200"
proof -
  have f: "falsy (body_userId body_no_user)" and t: "\<not> falsy (body_prompt body_no_user)"
    by (simp_all add: body_no_user_def)
  have h: "faults quiet 0 = None \<and> faults quiet 1 = None"
    by (simp add: quiet_def)
  have n: "mk_job_id quiet \<notin> set (map pid (previews app_waiting)) \<and>
           mk_job_id quiet \<notin> set (map entry_id (previewQueue app_waiting))"
    by code_simp
  show ?thesis
    using f t h n validation_rejects [of body_no_user quiet app_waiting] by blast
qed

section \<open>C8: an id with no record\<close>

text \<open>
  C8 as stated fails. The DELETE handler is asked to cancel an id the store has no
  record for: it answers with the status 200 and \<^verbatim>\<open>Preview cancelled\<close>, and
  nothing is changed.
\<close>

theorem cancel_unknown_reports_success:
  "db_get None ''preview_9_z'' (previews app_waiting) = Inr None \<and>
   cancel_preview quiet ''preview_9_z'' app_waiting =
     (\<lparr> code = 200, payload = Done ''Preview cancelled'' \<rparr>, app_waiting)"
  by code_simp

text \<open>
  C8, amended: for a job id with no record in the store, the status handlers
  answer 404 with \<^verbatim>\<open>Preview not found\<close> when the read of the store works; the
  DELETE handler never answers 404: it does not look the record up, and when the
  store and the queue work it answers 200 with \<^verbatim>\<open>Preview cancelled\<close> and leaves
  the records as they were.
\<close>

theorem unknown_id_answers:
  assumes "find (\<lambda>p. pid p = key) (previews a) = None"
  shows "(faults w 0 = None \<longrightarrow>
            get_status b w key a =
              \<lparr> code = 404, payload = Failure ''Preview not found'' None \<rparr>) \<and>
    code (fst (cancel_preview w key a)) \<noteq> 404 \<and>
    (faults w 0 = None \<and> faults w 1 = None \<and> faults w 2 = None \<longrightarrow>
       fst (cancel_preview w key a) = \<lparr> code = 200, payload = Done ''Preview cancelled'' \<rparr> \<and>
       previews (snd (cancel_preview w key a)) = previews a)"
  using assms
  by (auto simp: get_status_def db_get_def cancel_preview_def getJob_def job_remove_def
        db_update_def set_row_absent split: option.splits sum.splits)

theorem unknown_id_answers_witness:
  "find (\<lambda>p. pid p = ''preview_9_z'') (previews app_waiting) = None \<and>
   get_status True quiet ''preview_9_z'' app_waiting =
     \<lparr> code = 404, payload = Failure ''Preview not found'' None \<rparr> \<and>
   fst (cancel_preview quiet ''preview_9_z'' app_waiting) =
     \<lparr> code = 200, payload = Done ''Preview cancelled'' \<rparr> \<and>
   previews (snd (cancel_preview quiet ''preview_9_z'' app_waiting)) = previews app_waiting"
proof -
  have a: "find (\<lambda>p. pid p = ''preview_9_z'') (previews app_waiting) = None"
    by code_simp
  have h: "faults quiet 0 = None \<and> faults quiet 1 = None \<and> faults quiet 2 = None"
    by (simp add: quiet_def)
  show ?thesis
    using a h unknown_id_answers [OF a, of quiet True] by blast
qed

section \<open>C9: the previews of an owner\<close>

text \<open>
  C9: when the query of the store works, GET /api/previews/:userId answers 200 with
  exactly the records of the owner (each as often as the store has it), and of any
  two neighbours in the answer the first was created no earlier than the second.
\<close>

theorem listing_newest_first:
  assumes "faults w 0 = None"
  shows "code (list_previews w u a) = 200 \<and>
    (case payload (list_previews w u a) of
       Listing found \<Rightarrow>
         mset found = mset (filter (\<lambda>p. userId p = Some u) (previews a)) \<and>
         (\<forall>i. Suc i < length found \<longrightarrow>
            createdAt (found ! Suc i) \<le> createdAt (found ! i))
     | _ \<Rightarrow> False)"
  using assms
  by (simp add: list_previews_def sortBy_createdAt_def reverse_def where_userId_equals_def
        newest_first_adjacent)

theorem listing_newest_first_witness:
  "faults quiet 0 = None \<and>
   code (list_previews quiet ''u1'' app_waiting) = 200 \<and>
   payload (list_previews quiet ''u1'' app_waiting) = Listing [row3, row1] \<and>
   createdAt ([row3, row1] ! Suc 0) \<le> createdAt ([row3, row1] ! 0)"
proof -
  have h: "faults quiet 0 = None"
    by (simp add: quiet_def)
  have e: "payload (list_previews quiet ''u1'' app_waiting) = Listing [row3, row1]"
    by code_simp
  have "\<forall>i. Suc i < length [row3, row1] \<longrightarrow>
          createdAt ([row3, row1] ! Suc i) \<le> createdAt ([row3, row1] ! i)"
    using listing_newest_first [OF h, of "''u1''" app_waiting] by (simp add: e)
  then have "createdAt ([row3, row1] ! Suc 0) \<le> createdAt ([row3, row1] ! 0)"
    by simp
  with h e listing_newest_first [OF h, of "''u1''" app_waiting] show ?thesis
    by simp
qed

section \<open>C10: the URL of a deployment\<close>

text \<open>
  C10: when the token is set and the site-creation request is fulfilled with the
  data of the created site (a response whose data is not \<^verbatim>\<open>null\<close> or
  \<^verbatim>\<open>undefined\<close>), \<^verbatim>\<open>deployToNetlify(appFolderPath, siteName)\<close> returns
  \<^verbatim>\<open>https://\<close>, the site name and \<^verbatim>\<open>.netlify.app\<close>; the one request for the site is
  all the input and output of the call, and the same site name with another
  artifact path gives the same result.
\<close>

theorem deploy_url_from_site_name:
  assumes "NETLIFY_TOKEN env = Some t" and "t \<noteq> []"
    and "axios_post env (NETLIFY_API @ ''/sites'') siteName (''Bearer '' @ t)
           = Fulfilled (SiteData siteId)"
  shows "deployToNetlify env appFolderPath siteName =
           (Inr (''https://'' @ siteName @ ''.netlify.app''),
            [HttpPost (NETLIFY_API @ ''/sites'') siteName]) \<and>
         deployToNetlify env otherFolderPath siteName =
           deployToNetlify env appFolderPath siteName"
  using assms by (simp add: deployToNetlify_def)

theorem deploy_url_from_site_name_witness:
  "NETLIFY_TOKEN netlify_ok = Some ''nfp_token'' \<and>
   deployToNetlify netlify_ok ''/tmp/preview_1_x'' ''preview_1_a'' =
     (Inr ''https://preview_1_a.netlify.app'',
      [HttpPost ''https://api.netlify.com/api/v1/sites'' ''preview_1_a'']) \<and>
   deployToNetlify netlify_ok ''/tmp/preview_2_y'' ''preview_1_a'' =
     deployToNetlify netlify_ok ''/tmp/preview_1_x'' ''preview_1_a''"
proof -
  have h1: "NETLIFY_TOKEN netlify_ok = Some ''nfp_token''"
    by (simp add: netlify_ok_def)
  have h2: "''nfp_token'' \<noteq> []"
    by simp
  have h3: "axios_post netlify_ok (NETLIFY_API @ ''/sites'') ''preview_1_a''
              (''Bearer '' @ ''nfp_token'') = Fulfilled (SiteData (Some ''site-1''))"
    by (simp add: netlify_ok_def)
  show ?thesis
    using h1 deploy_url_from_site_name [OF h1 h2 h3, of "''/tmp/preview_1_x''" "''/tmp/preview_2_y''"]
    by (simp add: NETLIFY_API_def)
qed

text \<open>
  Outside the hypothesis on the data: a response that is fulfilled with the data
  \<^verbatim>\<open>null\<close> makes the read of \<^verbatim>\<open>id\<close> throw, and the error leaves the function
  after the one request.
\<close>

lemma deploy_without_data_throws:
  "deployToNetlify netlify_null ''/tmp/preview_1_x'' ''preview_1_a'' =
     (Inl (cannot_read_id ''null''),
      [HttpPost ''https://api.netlify.com/api/v1/sites'' ''preview_1_a''])"
  by (simp add: deployToNetlify_def netlify_null_def NETLIFY_API_def)

end
